theory Spec2Isabelle
  imports Complex_Main "HOL-Library.Sublist"
begin

section \<open>Data model\<close>

text \<open>
  The two scripts \<^verbatim>\<open>expert_analyzer.py\<close> and \<^verbatim>\<open>analyze_car_image.py\<close> work on
  Python floats, Python strings and lists of output lines.

  \<^item> Numbers (confidence, probabilities, image metrics, the dirt score) are modelled as
    mathematical reals, and a literal such as \<^verbatim>\<open>0.8\<close> is the decimal it is written as.
    The rounding of floating-point arithmetic and not-a-number values are not modelled.
    The weights of the dirt score (0.5, 1, 1.5, 2) and their sums are exact in binary.
  \<^item> ASCII strings of the program (class names, statuses, economic tags, dictionary keys)
    are values of type \<^typ>\<open>string\<close>.
  \<^item> The Russian dirt labels are Python \<^verbatim>\<open>str\<close> values, that is sequences of Unicode code
    points; they are modelled as lists of code points, so that \<^verbatim>\<open>==\<close> and the substring test
    \<^verbatim>\<open>in\<close> are the ones of the program.
  \<^item> A line of generated text is identified by the line of the source file on which its
    string literal is written. A formatted line (an f-string) carries, next to that number,
    the values it interpolates; the rendering with \<^verbatim>\<open>:.1f\<close> is not modelled. String literals
    that are equal as strings share the number of their first occurrence:
    in \<^verbatim>\<open>expert_analyzer.py\<close> the literals of lines 319, 327, 368 and 378 are the one of
    line 245, those of lines 325, 366 and 376 are the one of line 317, the f-strings of
    lines 187 and 198 are the one of line 175, that of line 275 is the one of line 266,
    that of line 288 is the one of line 276 and that of line 304 is the one of line 282.
    Lines of \<^verbatim>\<open>expert_analyzer.py\<close> have type \<open>line\<close>, lines of \<^verbatim>\<open>analyze_car_image.py\<close>
    have type \<open>comment\<close>.
\<close>

type_synonym pystr = "nat list"

datatype line = Txt nat | Fmt nat "real list"

datatype comment = Cmt nat | CFmt nat "real list"

section \<open>The decision cascade: \<^verbatim>\<open>determine_repairability\<close> (expert\_analyzer.py, 143--235)\<close>

definition TAXI_BAN_THRESHOLD :: real where
  "TAXI_BAN_THRESHOLD = 75.0"

definition REPAIR_REQUIRED_THRESHOLD :: real where
  "REPAIR_REQUIRED_THRESHOLD = 50.0"

definition CONDITIONAL_THRESHOLD :: real where
  "CONDITIONAL_THRESHOLD = 25.0"

definition MINOR_DAMAGE_TAXI_LIMIT :: real where
  "MINOR_DAMAGE_TAXI_LIMIT = 40.0"

text \<open>
  The function returns the triple (status, messages, economic assessment). It has no
  \<^verbatim>\<open>raise\<close> and no validation of its arguments; the last \<^verbatim>\<open>else\<close> takes every class
  string that is neither \<^verbatim>\<open>'major_damage'\<close> nor \<^verbatim>\<open>'minor_damage'\<close>.
\<close>

definition determine_repairability :: "string \<Rightarrow> real \<Rightarrow> real \<Rightarrow> string \<times> line list \<times> string" where
  "determine_repairability predicted_class confidence major_damage_prob =
    (if predicted_class = ''major_damage'' then
       (if confidence > 0.8 \<and> major_damage_prob > TAXI_BAN_THRESHOLD then
          (''taxi_banned'',
           [Txt 163, Fmt 164 [major_damage_prob], Fmt 165 [TAXI_BAN_THRESHOLD],
            Txt 166, Txt 167, Txt 168, Txt 169],
           ''safety_violation'')
        else if confidence > 0.6 \<or> major_damage_prob > REPAIR_REQUIRED_THRESHOLD then
          (''repair_required'',
           [Txt 174, Fmt 175 [major_damage_prob], Fmt 176 [REPAIR_REQUIRED_THRESHOLD],
            Txt 177, Txt 178, Txt 179, Txt 180, Txt 181],
           ''mandatory_repair'')
        else if major_damage_prob > CONDITIONAL_THRESHOLD then
          (''conditional_taxi'',
           [Txt 186, Fmt 175 [major_damage_prob],
            Fmt 188 [CONDITIONAL_THRESHOLD, REPAIR_REQUIRED_THRESHOLD],
            Txt 189, Txt 190, Txt 191, Txt 192, Txt 193],
           ''restricted_operation'')
        else
          (''conditional_taxi'',
           [Txt 197, Fmt 175 [major_damage_prob], Txt 199, Txt 200, Txt 201, Txt 202],
           ''cosmetic_repair''))
     else if predicted_class = ''minor_damage'' then
       (let minor_damage_prob = 100 - major_damage_prob in
        if confidence > 0.6 \<and> minor_damage_prob > MINOR_DAMAGE_TAXI_LIMIT then
          (''conditional_taxi'',
           [Txt 209, Fmt 210 [minor_damage_prob], Txt 211, Txt 212, Txt 213, Txt 214, Txt 215],
           ''image_improvement'')
        else
          (''taxi_ready'',
           [Txt 219, Txt 220, Txt 221, Txt 222, Txt 223, Txt 224],
           ''minor_maintenance''))
     else
       (''taxi_ready'',
        [Txt 229, Txt 230, Txt 231, Txt 232, Txt 233, Txt 234],
        ''premium_ready''))"

text \<open>The pair (status, economic tag) of a result, and its list of rationale lines.\<close>

definition verdict :: "string \<times> line list \<times> string \<Rightarrow> string \<times> string" where
  "verdict r = (fst r, snd (snd r))"

definition rationale :: "string \<times> line list \<times> string \<Rightarrow> line list" where
  "rationale r = fst (snd r)"

subsection \<open>The cascade as the specification words it\<close>

text \<open>
  Section 4.2 of the specification: thresholds \<open>TAXI_BAN = 75.0\<close>,
  \<open>REPAIR_REQUIRED = 50.0\<close>, \<open>CONDITIONAL = 25.0\<close>, \<open>MINOR_DAMAGE_LIMIT = 40.0\<close>, and three
  ordered guard lists, first match wins.
\<close>

definition spec_major_cascade :: "real \<Rightarrow> real \<Rightarrow> string \<times> string" where
  "spec_major_cascade confidence P_major =
    (if confidence > 0.8 \<and> P_major > 75.0 then (''taxi_banned'', ''safety_violation'')
     else if confidence > 0.6 \<or> P_major > 50.0 then (''repair_required'', ''mandatory_repair'')
     else if P_major > 25.0 then (''conditional_taxi'', ''restricted_operation'')
     else (''conditional_taxi'', ''cosmetic_repair''))"

definition spec_minor_cascade :: "real \<Rightarrow> real \<Rightarrow> string \<times> string" where
  "spec_minor_cascade confidence P_major =
    (let minor_severity = 100 - P_major in
     if confidence > 0.6 \<and> minor_severity > 40.0 then (''conditional_taxi'', ''image_improvement'')
     else (''taxi_ready'', ''minor_maintenance''))"

section \<open>The dirt score: \<^verbatim>\<open>analyze_dirt_level\<close>\<close>

text \<open>
  \<^verbatim>\<open>analyze_dirt_level\<close> exists twice, in \<^verbatim>\<open>expert_analyzer.py\<close> (lines 46--141) and in
  \<^verbatim>\<open>analyze_car_image.py\<close> (lines 52--142). Both first measure six quantities of the
  image with numpy and PIL (lines 48--79, resp. 58--91); these measurements are the input
  of the model. The scoring that follows is the same text in both files.
\<close>

record metrics =
  color_diversity :: real
  contrast :: real
  saturation :: real
  brown_ratio :: real
  edge_intensity :: real
  brightness :: real

text \<open>
  Lines 82--112 of \<^verbatim>\<open>expert_analyzer.py\<close>, lines 94--130 of \<^verbatim>\<open>analyze_car_image.py\<close>:
  the variable \<^verbatim>\<open>dirt_score\<close> starts at 0 and is increased by six \<^verbatim>\<open>if\<close>/\<^verbatim>\<open>elif\<close>
  statements in turn.
\<close>

definition dirt_score_of :: "metrics \<Rightarrow> real" where
  "dirt_score_of m =
    (let dirt_score = 0;
         dirt_score = (if color_diversity m < 80 then dirt_score + 2
                       else if color_diversity m < 120 then dirt_score + 1 else dirt_score);
         dirt_score = (if contrast m < 25 then dirt_score + 2
                       else if contrast m < 40 then dirt_score + 1 else dirt_score);
         dirt_score = (if saturation m < 60 then dirt_score + 1.5
                       else if saturation m < 100 then dirt_score + 0.5 else dirt_score);
         dirt_score = (if brown_ratio m > 0.15 then dirt_score + 2
                       else if brown_ratio m > 0.08 then dirt_score + 1 else dirt_score);
         dirt_score = (if edge_intensity m < 15 then dirt_score + 1.5
                       else if edge_intensity m < 25 then dirt_score + 0.5 else dirt_score);
         dirt_score = (if brightness m < 90 then dirt_score + 1
                       else if brightness m < 110 then dirt_score + 0.5 else dirt_score)
     in dirt_score)"

text \<open>
  The five labels, as sequences of code points (transliterated: "ochen' gryaznaya",
  "gryaznaya", "slegka gryaznaya", "dostatochno chistaya", "ochen' chistaya"; 32 is the
  space).
\<close>

definition very_dirty :: pystr where
  "very_dirty = [1086, 1095, 1077, 1085, 1100, 32, 1075, 1088, 1103, 1079, 1085, 1072, 1103]"

definition dirty :: pystr where
  "dirty = [1075, 1088, 1103, 1079, 1085, 1072, 1103]"

definition slightly_dirty :: pystr where
  "slightly_dirty = [1089, 1083, 1077, 1075, 1082, 1072, 32, 1075, 1088, 1103, 1079, 1085, 1072, 1103]"

definition fairly_clean :: pystr where
  "fairly_clean = [1076, 1086, 1089, 1090, 1072, 1090, 1086, 1095, 1085, 1086, 32,
                   1095, 1080, 1089, 1090, 1072, 1103]"

definition very_clean :: pystr where
  "very_clean = [1086, 1095, 1077, 1085, 1100, 32, 1095, 1080, 1089, 1090, 1072, 1103]"

text \<open>
  Lines 115--129 of \<^verbatim>\<open>expert_analyzer.py\<close>: the label and its emoji (one code point each:
  U+1F7E4, U+1F7EB, U+1F7E8, U+1F7E9, U+2728).
\<close>

definition dirt_level :: "real \<Rightarrow> pystr \<times> pystr" where
  "dirt_level dirt_score =
    (if dirt_score \<ge> 6 then (very_dirty, [128996])
     else if dirt_score \<ge> 4 then (dirty, [129003])
     else if dirt_score \<ge> 2 then (slightly_dirty, [129000])
     else if dirt_score \<ge> 1 then (fairly_clean, [129001])
     else (very_clean, [10024]))"

text \<open>
  Lines 131--141 of \<^verbatim>\<open>expert_analyzer.py\<close>: the dictionary of metrics and the returned
  tuple (status, emoji, dirt\_score, metrics).
\<close>

definition metrics_dict :: "metrics \<Rightarrow> real \<Rightarrow> (string \<rightharpoonup> real)" where
  "metrics_dict m dirt_score =
    [''color_diversity'' \<mapsto> color_diversity m,
     ''contrast'' \<mapsto> contrast m,
     ''saturation'' \<mapsto> saturation m,
     ''brown_ratio'' \<mapsto> brown_ratio m,
     ''edge_intensity'' \<mapsto> edge_intensity m,
     ''brightness'' \<mapsto> brightness m,
     ''dirt_score'' \<mapsto> dirt_score]"

definition analyze_dirt_level :: "metrics \<Rightarrow> pystr \<times> pystr \<times> real \<times> (string \<rightharpoonup> real)" where
  "analyze_dirt_level m =
    (let dirt_score = dirt_score_of m; (status, emoji) = dirt_level dirt_score
     in (status, emoji, dirt_score, metrics_dict m dirt_score))"

text \<open>
  Lines 133--142 of \<^verbatim>\<open>analyze_car_image.py\<close>: the same thresholds, each branch returning
  the label, an emoji (the first one is U+FFFD in the file) and the formatted index. The
  five f-strings are the same template, the one of line 134.
\<close>

definition analyze_dirt_level_aci :: "metrics \<Rightarrow> pystr \<times> pystr \<times> comment" where
  "analyze_dirt_level_aci m =
    (let dirt_score = dirt_score_of m in
     if dirt_score \<ge> 6 then (very_dirty, [65533], CFmt 134 [dirt_score])
     else if dirt_score \<ge> 4 then (dirty, [129003], CFmt 134 [dirt_score])
     else if dirt_score \<ge> 2 then (slightly_dirty, [129000], CFmt 134 [dirt_score])
     else if dirt_score \<ge> 1 then (fairly_clean, [129001], CFmt 134 [dirt_score])
     else (very_clean, [10024], CFmt 134 [dirt_score]))"

subsection \<open>The score as the specification words it\<close>

text \<open>
  Section 4.1 of the specification: six clauses, each reading one metric and
  contributing a weight; the score is their sum.
\<close>

definition color_diversity_points :: "real \<Rightarrow> real" where
  "color_diversity_points v = (if v < 80 then 2 else if v < 120 then 1 else 0)"

definition contrast_points :: "real \<Rightarrow> real" where
  "contrast_points v = (if v < 25 then 2 else if v < 40 then 1 else 0)"

definition saturation_points :: "real \<Rightarrow> real" where
  "saturation_points v = (if v < 60 then 1.5 else if v < 100 then 0.5 else 0)"

definition brown_ratio_points :: "real \<Rightarrow> real" where
  "brown_ratio_points v = (if v > 0.15 then 2 else if v > 0.08 then 1 else 0)"

definition edge_intensity_points :: "real \<Rightarrow> real" where
  "edge_intensity_points v = (if v < 15 then 1.5 else if v < 25 then 0.5 else 0)"

definition brightness_points :: "real \<Rightarrow> real" where
  "brightness_points v = (if v < 90 then 1 else if v < 110 then 0.5 else 0)"

section \<open>The report: \<^verbatim>\<open>generate_expert_assessment\<close> (expert\_analyzer.py, 237--463)\<close>

text \<open>
  The function appends lines to the list \<^verbatim>\<open>assessment\<close> and returns it. It can fail in two
  places: \<^verbatim>\<open>probabilities[i]\<close> raises \<^verbatim>\<open>IndexError\<close> on a vector with fewer than three
  entries (lines 254--256), and \<^verbatim>\<open>dirt_metrics[key]\<close> raises \<^verbatim>\<open>KeyError\<close> on a missing key
  (lines 369--373).
\<close>

datatype py_error = IndexError | KeyError string

definition getitem :: "real list \<Rightarrow> nat \<Rightarrow> py_error + real" where
  "getitem xs i = (if i < length xs then Inr (xs ! i) else Inl IndexError)"

definition lookup :: "(string \<rightharpoonup> real) \<Rightarrow> string \<Rightarrow> py_error + real" where
  "lookup d k = (case d k of None \<Rightarrow> Inl (KeyError k) | Some v \<Rightarrow> Inr v)"

text \<open>Lines 263--314: the lines on the damage class, chosen by class and confidence.\<close>

definition damage_section :: "string \<Rightarrow> real \<Rightarrow> real \<Rightarrow> real \<Rightarrow> real \<Rightarrow> line list" where
  "damage_section predicted_class confidence no_damage_prob minor_damage_prob major_damage_prob =
    (if predicted_class = ''no_damage'' then
       (if confidence > 0.85 then [Txt 265, Fmt 266 [no_damage_prob], Txt 267]
        else if confidence > 0.7 then
          [Txt 269, Fmt 270 [no_damage_prob], Fmt 271 [minor_damage_prob], Txt 272]
        else [Txt 274, Fmt 266 [no_damage_prob], Fmt 276 [minor_damage_prob], Txt 277])
     else if predicted_class = ''minor_damage'' then
       (if confidence > 0.8 then
          [Txt 281, Fmt 282 [confidence * 100], Txt 283, Txt 284, Txt 285]
        else if confidence > 0.6 then
          [Txt 287, Fmt 276 [minor_damage_prob], Fmt 289 [no_damage_prob], Txt 290]
        else [Txt 292, Txt 293, Txt 294])
     else
       (if confidence > 0.9 then [Txt 298, Txt 299, Txt 300, Fmt 301 [major_damage_prob]]
        else if confidence > 0.8 then
          [Txt 303, Fmt 282 [confidence * 100], Txt 305, Txt 306, Txt 307]
        else if confidence > 0.6 then [Txt 309, Fmt 310 [major_damage_prob], Txt 311]
        else [Txt 313, Txt 314]))"

text \<open>Lines 329--363: the block on cleanliness, chosen by comparing the label with \<^verbatim>\<open>==\<close>.\<close>

definition dirt_section :: "pystr \<Rightarrow> real \<Rightarrow> line list" where
  "dirt_section dirt_status dirt_score =
    (if dirt_status = very_dirty then
       [Txt 330, Txt 331, Txt 332, Txt 333, Txt 334, Txt 335]
     else if dirt_status = dirty then
       [Txt 337, Txt 338, Fmt 339 [dirt_score], Txt 340, Txt 341, Txt 342]
     else if dirt_status = slightly_dirty then
       [Txt 344, Txt 345, Fmt 346 [dirt_score], Txt 347, Txt 348, Txt 349]
     else if dirt_status = fairly_clean then
       [Txt 351, Txt 352, Fmt 353 [dirt_score], Txt 354, Txt 355, Txt 356]
     else
       [Txt 358, Txt 359, Fmt 360 [dirt_score], Txt 361, Txt 362, Txt 363])"

text \<open>Lines 369--373: five formatted lines, each reading one key of the dictionary.\<close>

definition technical_section :: "(string \<rightharpoonup> real) \<Rightarrow> py_error + line list" where
  "technical_section dirt_metrics =
    (case lookup dirt_metrics ''color_diversity'' of Inl e \<Rightarrow> Inl e | Inr v1 \<Rightarrow>
     case lookup dirt_metrics ''contrast'' of Inl e \<Rightarrow> Inl e | Inr v2 \<Rightarrow>
     case lookup dirt_metrics ''saturation'' of Inl e \<Rightarrow> Inl e | Inr v3 \<Rightarrow>
     case lookup dirt_metrics ''edge_intensity'' of Inl e \<Rightarrow> Inl e | Inr v4 \<Rightarrow>
     case lookup dirt_metrics ''brightness'' of Inl e \<Rightarrow> Inl e | Inr v5 \<Rightarrow>
     Inr [Fmt 369 [v1], Fmt 370 [v2], Fmt 371 [v3], Fmt 372 [v4], Fmt 373 [v5]])"

text \<open>Lines 381--436: the conclusion, chosen by the status and the economic assessment.\<close>

definition conclusion_section :: "string \<Rightarrow> string \<Rightarrow> line list" where
  "conclusion_section repairability_status economic_status =
    (if repairability_status = ''taxi_ready'' then
       (if economic_status = ''premium_ready'' then
          [Txt 383, Txt 384, Txt 385, Txt 386, Txt 387, Txt 388]
        else [Txt 390, Txt 391, Txt 392, Txt 393, Txt 394, Txt 395])
     else if repairability_status = ''conditional_taxi'' then
       (if economic_status = ''image_improvement'' then
          [Txt 399, Txt 400, Txt 401, Txt 402, Txt 403, Txt 404]
        else if economic_status = ''cosmetic_repair'' then
          [Txt 406, Txt 407, Txt 408, Txt 409, Txt 410]
        else [Txt 412, Txt 413, Txt 414, Txt 415, Txt 416, Txt 417])
     else if repairability_status = ''repair_required'' then
       [Txt 420, Txt 421, Txt 422, Txt 423, Txt 424, Txt 425, Txt 426, Txt 427]
     else
       [Txt 430, Txt 431, Txt 432, Txt 433, Txt 434, Txt 435, Txt 436])"

text \<open>Lines 439--451: the advice on cleanliness, chosen by the dirt score alone.\<close>

definition cleanliness_section :: "real \<Rightarrow> line list" where
  "cleanliness_section dirt_score =
    (if dirt_score > 6.0 then [Txt 440, Txt 441, Txt 442, Txt 443, Txt 444, Txt 445]
     else if dirt_score > 4.0 then [Txt 447, Txt 448, Txt 449, Txt 450, Txt 451]
     else [])"

text \<open>
  The whole function. The sections are appended in the order of the source; the boxes
  around the section titles are the lines 243--245, 317--319, 325--327, 366--368 and
  376--378, and the closing lines are 454--461.
\<close>

definition generate_expert_assessment ::
  "string \<Rightarrow> real \<Rightarrow> real list \<Rightarrow> string list \<Rightarrow> pystr \<Rightarrow> real \<Rightarrow> (string \<rightharpoonup> real)
    \<Rightarrow> py_error + line list" where
  "generate_expert_assessment predicted_class confidence probabilities class_names
      dirt_status dirt_score dirt_metrics =
    (let assessment = [Txt 243, Txt 244, Txt 245, Txt 248, Txt 249, Txt 252] in
     case getitem probabilities 0 of Inl e \<Rightarrow> Inl e | Inr p0 \<Rightarrow>
     case getitem probabilities 1 of Inl e \<Rightarrow> Inl e | Inr p1 \<Rightarrow>
     case getitem probabilities 2 of Inl e \<Rightarrow> Inl e | Inr p2 \<Rightarrow>
     let no_damage_prob = p0 * 100;
         minor_damage_prob = p1 * 100;
         major_damage_prob = p2 * 100;
         (repairability_status, repairability_msgs, economic_status) =
            determine_repairability predicted_class confidence major_damage_prob;
         assessment = assessment
            @ damage_section predicted_class confidence no_damage_prob minor_damage_prob
                major_damage_prob;
         assessment = assessment @ [Txt 317, Txt 318, Txt 245];
         assessment = assessment @ repairability_msgs;
         assessment = assessment @ [Txt 317, Txt 326, Txt 245];
         assessment = assessment @ dirt_section dirt_status dirt_score;
         assessment = assessment @ [Txt 317, Txt 367, Txt 245]
     in case technical_section dirt_metrics of Inl e \<Rightarrow> Inl e | Inr technical \<Rightarrow>
     let assessment = assessment @ technical;
         assessment = assessment @ [Txt 317, Txt 377, Txt 245];
         assessment = assessment @ conclusion_section repairability_status economic_status;
         assessment = assessment @ cleanliness_section dirt_score;
         assessment = assessment @ [Txt 454, Txt 455, Txt 456, Txt 457, Txt 458, Txt 459];
         assessment = assessment @ [Txt 461]
     in Inr assessment)"

text \<open>Reading the report: the source line of a report line, and three groups of lines.\<close>

definition line_no :: "line \<Rightarrow> nat" where
  "line_no l = (case l of Txt n \<Rightarrow> n | Fmt n vs \<Rightarrow> n)"

definition verdict_line :: "line \<Rightarrow> bool" where
  "verdict_line l = ((163 \<le> line_no l \<and> line_no l \<le> 234) \<or> (383 \<le> line_no l \<and> line_no l \<le> 436))"

definition cleanliness_line :: "line \<Rightarrow> bool" where
  "cleanliness_line l = (440 \<le> line_no l \<and> line_no l \<le> 451)"

definition carries :: "real \<Rightarrow> line \<Rightarrow> bool" where
  "carries v l = (case l of Txt n \<Rightarrow> False | Fmt n vs \<Rightarrow> v \<in> set vs)"

definition plain :: "line \<Rightarrow> bool" where
  "plain l = (case l of Txt n \<Rightarrow> True | Fmt n vs \<Rightarrow> False)"

section \<open>The short comments: \<^verbatim>\<open>get_human_comment\<close> (analyze\_car\_image.py, 144--195)\<close>

text \<open>
  Python's \<^verbatim>\<open>a in b\<close> on strings: \<^verbatim>\<open>a\<close> occurs in \<^verbatim>\<open>b\<close> as a contiguous run of characters.
\<close>

fun py_in :: "pystr \<Rightarrow> pystr \<Rightarrow> bool" where
  "py_in a [] = (a = [])"
| "py_in a (c # b) = (prefix a (c # b) \<or> py_in a b)"

text \<open>Lines 148--179: the comments on the damage class.\<close>

definition damage_comments :: "string \<Rightarrow> real \<Rightarrow> comment list" where
  "damage_comments predicted_class confidence =
    (if predicted_class = ''no_damage'' then
       (if confidence > 0.8 then [Cmt 151, Cmt 152]
        else if confidence > 0.6 then [Cmt 154]
        else [Cmt 156])
     else if predicted_class = ''minor_damage'' then
       (if confidence > 0.7 then [Cmt 160, Cmt 161, Cmt 162]
        else [Cmt 164])
     else
       (if confidence > 0.9 then [Cmt 168, Cmt 169, Cmt 170]
        else if confidence > 0.8 then [Cmt 172, Cmt 173, Cmt 174]
        else if confidence > 0.6 then [Cmt 176, Cmt 177]
        else [Cmt 179]))"

text \<open>Lines 181--193: the comments on cleanliness, chosen with the substring test.\<close>

definition dirt_comments :: "pystr \<Rightarrow> comment list" where
  "dirt_comments dirt_status =
    (if py_in very_dirty dirt_status then [Cmt 183, Cmt 184]
     else if py_in dirty dirt_status then [Cmt 186, Cmt 187]
     else if py_in slightly_dirty dirt_status then [Cmt 189]
     else if py_in fairly_clean dirt_status then [Cmt 191]
     else [Cmt 193])"

definition get_human_comment :: "string \<Rightarrow> real \<Rightarrow> pystr \<Rightarrow> comment list" where
  "get_human_comment predicted_class confidence dirt_status =
    (let comments = [];
         comments = comments @ damage_comments predicted_class confidence;
         comments = comments @ dirt_comments dirt_status
     in comments)"

text \<open>The five labels, in the order of the thresholds.\<close>

definition dirt_labels :: "pystr list" where
  "dirt_labels = [very_dirty, dirty, slightly_dirty, fairly_clean, very_clean]"

text \<open>A clean image, used to instantiate the theorems at concrete measurements.\<close>

definition sample_metrics :: metrics where
  "sample_metrics = \<lparr>color_diversity = 130, contrast = 50, saturation = 120,
      brown_ratio = 0.01, edge_intensity = 30, brightness = 120\<rparr>"

section \<open>Properties of the decision cascade\<close>

lemma verdict_major:
  "verdict (determine_repairability ''major_damage'' c p) = spec_major_cascade c p"
  by (simp add: determine_repairability_def verdict_def spec_major_cascade_def
      TAXI_BAN_THRESHOLD_def REPAIR_REQUIRED_THRESHOLD_def CONDITIONAL_THRESHOLD_def)

lemma verdict_minor:
  "verdict (determine_repairability ''minor_damage'' c p) = spec_minor_cascade c p"
  by (simp add: determine_repairability_def verdict_def spec_minor_cascade_def
      MINOR_DAMAGE_TAXI_LIMIT_def Let_def)

lemma verdict_other:
  "predicted_class \<noteq> ''major_damage'' \<Longrightarrow> predicted_class \<noteq> ''minor_damage'' \<Longrightarrow>
   determine_repairability predicted_class c p =
     (''taxi_ready'', [Txt 229, Txt 230, Txt 231, Txt 232, Txt 233, Txt 234], ''premium_ready'')"
  by (simp add: determine_repairability_def)

text \<open>
  Claim C1. For a prediction of class \<^verbatim>\<open>major_damage\<close> with confidence in (0,1] and
  \<open>P_major\<close> in [0,100], the status and the economic tag returned by
  \<^verbatim>\<open>determine_repairability\<close> are those of the ordered cascade of the specification:
  confidence > 0.8 and \<open>P_major\<close> > 75 gives taxi\_banned / safety\_violation; else
  confidence > 0.6 or \<open>P_major\<close> > 50 gives repair\_required / mandatory\_repair; else
  \<open>P_major\<close> > 25 gives conditional\_taxi / restricted\_operation; else
  conditional\_taxi / cosmetic\_repair.
\<close>

theorem major_damage_cascade:
  assumes "predicted_class = ''major_damage''"
    and "0 < confidence" and "confidence \<le> 1"
    and "0 \<le> P_major" and "P_major \<le> 100"
  shows "verdict (determine_repairability predicted_class confidence P_major) =
    (if confidence > 0.8 \<and> P_major > 75.0 then (''taxi_banned'', ''safety_violation'')
     else if confidence > 0.6 \<or> P_major > 50.0 then (''repair_required'', ''mandatory_repair'')
     else if P_major > 25.0 then (''conditional_taxi'', ''restricted_operation'')
     else (''conditional_taxi'', ''cosmetic_repair''))"
  using assms(1) verdict_major [of confidence P_major]
  by (simp add: spec_major_cascade_def)

theorem major_damage_cascade_witness:
  "verdict (determine_repairability ''major_damage'' 0.85 80) = (''taxi_banned'', ''safety_violation'')
   \<and> verdict (determine_repairability ''major_damage'' 0.65 40) = (''repair_required'', ''mandatory_repair'')
   \<and> verdict (determine_repairability ''major_damage'' 0.5 30) = (''conditional_taxi'', ''restricted_operation'')
   \<and> verdict (determine_repairability ''major_damage'' 0.5 20) = (''conditional_taxi'', ''cosmetic_repair'')"
  using major_damage_cascade [of "''major_damage''" "0.85" 80]
    major_damage_cascade [of "''major_damage''" "0.65" 40]
    major_damage_cascade [of "''major_damage''" "0.5" 30]
    major_damage_cascade [of "''major_damage''" "0.5" 20]
  by simp

text \<open>
  Claim C3. For a prediction of class \<^verbatim>\<open>minor_damage\<close>, with
  \<open>minor_severity = 100 - P_major\<close>: confidence > 0.6 and \<open>minor_severity\<close> > 40 gives
  conditional\_taxi / image\_improvement, anything else taxi\_ready / minor\_maintenance.
  For a prediction of class \<^verbatim>\<open>no_damage\<close> the result is taxi\_ready / premium\_ready
  whatever the confidence and the probability.
\<close>

theorem minor_and_no_damage_cascade:
  assumes "predicted_class = ''minor_damage'' \<or> predicted_class = ''no_damage''"
  shows "verdict (determine_repairability predicted_class confidence P_major) =
    (if predicted_class = ''minor_damage'' then
       (if confidence > 0.6 \<and> 100 - P_major > 40.0
        then (''conditional_taxi'', ''image_improvement'')
        else (''taxi_ready'', ''minor_maintenance''))
     else (''taxi_ready'', ''premium_ready''))"
proof (cases "predicted_class = ''minor_damage''")
  case True
  then show ?thesis
    using verdict_minor [of confidence P_major]
    by (simp add: spec_minor_cascade_def Let_def)
next
  case False
  with assms have "predicted_class = ''no_damage''" by simp
  then show ?thesis
    by (simp add: verdict_other verdict_def)
qed

theorem minor_and_no_damage_cascade_witness:
  "verdict (determine_repairability ''minor_damage'' 0.7 55) = (''conditional_taxi'', ''image_improvement'')
   \<and> verdict (determine_repairability ''minor_damage'' 0.5 90) = (''taxi_ready'', ''minor_maintenance'')
   \<and> verdict (determine_repairability ''minor_damage'' 0.5 10) = (''taxi_ready'', ''minor_maintenance'')
   \<and> verdict (determine_repairability ''no_damage'' 0.95 3) = (''taxi_ready'', ''premium_ready'')"
  using minor_and_no_damage_cascade [of "''minor_damage''" "0.7" 55]
    minor_and_no_damage_cascade [of "''minor_damage''" "0.5" 90]
    minor_and_no_damage_cascade [of "''minor_damage''" "0.5" 10]
    minor_and_no_damage_cascade [of "''no_damage''" "0.95" 3]
  by simp

text \<open>
  Claim C10. For every class string that is neither \<^verbatim>\<open>'major_damage'\<close> nor
  \<^verbatim>\<open>'minor_damage'\<close>, documented or not, \<^verbatim>\<open>determine_repairability\<close> takes the final
  \<^verbatim>\<open>else\<close> branch: it returns taxi\_ready / premium\_ready with the six lines of that
  branch, for every confidence and every probability; the model has no error value
  because the function has no failing path.
\<close>

theorem other_class_premium_ready:
  assumes "predicted_class \<noteq> ''major_damage''" and "predicted_class \<noteq> ''minor_damage''"
  shows "determine_repairability predicted_class confidence major_damage_prob =
    (''taxi_ready'', [Txt 229, Txt 230, Txt 231, Txt 232, Txt 233, Txt 234], ''premium_ready'')"
  using assms by (simp add: determine_repairability_def)

theorem other_class_premium_ready_witness:
  "determine_repairability ''truck'' 1.5 (-20) =
     (''taxi_ready'', [Txt 229, Txt 230, Txt 231, Txt 232, Txt 233, Txt 234], ''premium_ready'')
   \<and> verdict (determine_repairability ''no_damage'' 0.95 1) = (''taxi_ready'', ''premium_ready'')"
  using other_class_premium_ready [of "''truck''" "1.5" "-20"]
    other_class_premium_ready [of "''no_damage''" "0.95" 1]
  by (simp add: verdict_def)

text \<open>
  Claim C2, as stated: an input that violates the prediction contract (a confidence
  outside (0,1], probabilities that do not sum to 1, an unknown class label) is rejected
  with an error before any branch is evaluated. The source has no such check. A class
  label \<^verbatim>\<open>'truck'\<close> with confidence 1.5 and \<open>P_major\<close> = 250 is answered with
  taxi\_ready / premium\_ready, the same numbers with class \<^verbatim>\<open>'major_damage'\<close> with
  taxi\_banned / safety\_violation, and the report for the probability vector
  (0.5, 0.5, 2.5) is produced without error.
\<close>

theorem invalid_input_counterexample:
  "''truck'' \<notin> {''no_damage'', ''minor_damage'', ''major_damage''}
   \<and> \<not> (0 < (1.5::real) \<and> (1.5::real) \<le> 1)
   \<and> determine_repairability ''truck'' 1.5 250 =
       (''taxi_ready'', [Txt 229, Txt 230, Txt 231, Txt 232, Txt 233, Txt 234], ''premium_ready'')
   \<and> verdict (determine_repairability ''major_damage'' 1.5 250) = (''taxi_banned'', ''safety_violation'')
   \<and> \<not> isl (generate_expert_assessment ''truck'' 1.5 [0.5, 0.5, 2.5] [] very_clean 0
           (metrics_dict sample_metrics 0))"
  by (simp add: determine_repairability_def verdict_def TAXI_BAN_THRESHOLD_def
      generate_expert_assessment_def getitem_def technical_section_def lookup_def
      metrics_dict_def Let_def split: prod.splits)

text \<open>
  Claim C2, amended. \<^verbatim>\<open>determine_repairability\<close> validates nothing and raises nothing:
  for every class string, every confidence and every \<open>P_major\<close>, inside the contract or
  not, it returns the verdict of the cascade applied to the values as they are given;
  class \<^verbatim>\<open>major_damage\<close> and class \<^verbatim>\<open>minor_damage\<close> use their cascades, every other class
  string gives taxi\_ready / premium\_ready.
\<close>

theorem decision_without_validation:
  "verdict (determine_repairability predicted_class confidence P_major) =
    (if predicted_class = ''major_damage'' then spec_major_cascade confidence P_major
     else if predicted_class = ''minor_damage'' then spec_minor_cascade confidence P_major
     else (''taxi_ready'', ''premium_ready''))"
proof (cases "predicted_class = ''major_damage''")
  case True
  then show ?thesis by (simp add: verdict_major)
next
  case False
  note not_major = this
  show ?thesis
  proof (cases "predicted_class = ''minor_damage''")
    case True
    then show ?thesis by (simp add: verdict_minor)
  next
    case False
    with not_major show ?thesis by (simp add: verdict_other verdict_def)
  qed
qed

theorem decision_without_validation_witness:
  "verdict (determine_repairability ''major_damage'' (-1) 250) = (''repair_required'', ''mandatory_repair'')
   \<and> verdict (determine_repairability ''minor_damage'' 7 (-5)) = (''conditional_taxi'', ''image_improvement'')
   \<and> verdict (determine_repairability ''truck'' 1.5 250) = (''taxi_ready'', ''premium_ready'')"
  using decision_without_validation [of "''major_damage''" "-1" 250]
    decision_without_validation [of "''minor_damage''" 7 "-5"]
    decision_without_validation [of "''truck''" "1.5" 250]
  by (simp add: spec_major_cascade_def spec_minor_cascade_def)

text \<open>
  Claim C7, as stated: in every branch of the cascade the rationale has a line carrying
  the numeric \<open>P_major\<close> (or \<open>minor_severity\<close>) that triggered the branch. The two
  taxi\_ready branches return fixed text only: for class \<^verbatim>\<open>minor_damage\<close> with confidence
  0.5 and \<open>P_major\<close> = 20, and for class \<^verbatim>\<open>no_damage\<close> with confidence 0.9 and
  \<open>P_major\<close> = 3, no line of the rationale carries \<open>P_major\<close> or \<open>100 - P_major\<close>.
\<close>

theorem rationale_numeric_counterexample:
  "\<not> list_ex (carries 20) (rationale (determine_repairability ''minor_damage'' 0.5 20))
   \<and> \<not> list_ex (carries (100 - 20)) (rationale (determine_repairability ''minor_damage'' 0.5 20))
   \<and> \<not> list_ex (carries 3) (rationale (determine_repairability ''no_damage'' 0.9 3))
   \<and> \<not> list_ex (carries (100 - 3)) (rationale (determine_repairability ''no_damage'' 0.9 3))"
  by (simp add: determine_repairability_def rationale_def carries_def MINOR_DAMAGE_TAXI_LIMIT_def)

text \<open>
  Claim C7, amended. In each of the four branches of class \<^verbatim>\<open>major_damage\<close> the rationale
  has a line formatted from \<open>P_major\<close>, and in the image\_improvement branch of class
  \<^verbatim>\<open>minor_damage\<close> it has a line formatted from \<open>minor_severity = 100 - P_major\<close>. The
  minor\_maintenance branch and the final \<^verbatim>\<open>else\<close> branch (premium\_ready) return lines of
  fixed text, none of which carries a number.
\<close>

theorem rationale_numeric:
  "list_ex (carries P_major) (rationale (determine_repairability ''major_damage'' confidence P_major))
   \<and> (confidence > 0.6 \<and> 100 - P_major > 40.0 \<longrightarrow>
        list_ex (carries (100 - P_major))
          (rationale (determine_repairability ''minor_damage'' confidence P_major)))
   \<and> (\<not> (confidence > 0.6 \<and> 100 - P_major > 40.0) \<longrightarrow>
        list_all plain (rationale (determine_repairability ''minor_damage'' confidence P_major)))
   \<and> (predicted_class \<noteq> ''major_damage'' \<and> predicted_class \<noteq> ''minor_damage'' \<longrightarrow>
        list_all plain (rationale (determine_repairability predicted_class confidence P_major)))"
  by (simp add: determine_repairability_def rationale_def carries_def plain_def
      MINOR_DAMAGE_TAXI_LIMIT_def Let_def)

theorem rationale_numeric_witness:
  "list_ex (carries 80) (rationale (determine_repairability ''major_damage'' 0.8 80))
   \<and> list_ex (carries 70) (rationale (determine_repairability ''minor_damage'' 0.7 30))
   \<and> list_all plain (rationale (determine_repairability ''minor_damage'' 0.5 20))
   \<and> list_all plain (rationale (determine_repairability ''no_damage'' 0.9 3))"
  using rationale_numeric [of 80 "0.8" "''no_damage''"]
    rationale_numeric [of 30 "0.7" "''no_damage''"]
    rationale_numeric [of 20 "0.5" "''no_damage''"]
    rationale_numeric [of 3 "0.9" "''no_damage''"]
  by simp

section \<open>Properties of the dirt score\<close>

lemma accumulate:
  "(if a then s + x else if b then s + y else s) = s + (if a then x else if b then y else (0::real))"
  by simp

lemma dirt_score_sum:
  "dirt_score_of m =
     color_diversity_points (color_diversity m) + contrast_points (contrast m)
     + saturation_points (saturation m) + brown_ratio_points (brown_ratio m)
     + edge_intensity_points (edge_intensity m) + brightness_points (brightness m)"
  unfolding dirt_score_of_def Let_def color_diversity_points_def contrast_points_def
    saturation_points_def brown_ratio_points_def edge_intensity_points_def brightness_points_def
  by (simp only: accumulate add_0)

lemma color_diversity_points_range:
  "0 \<le> color_diversity_points v \<and> color_diversity_points v \<le> 2"
  by (simp add: color_diversity_points_def)

lemma contrast_points_range: "0 \<le> contrast_points v \<and> contrast_points v \<le> 2"
  by (simp add: contrast_points_def)

lemma saturation_points_range: "0 \<le> saturation_points v \<and> saturation_points v \<le> 1.5"
  by (simp add: saturation_points_def)

lemma brown_ratio_points_range: "0 \<le> brown_ratio_points v \<and> brown_ratio_points v \<le> 2"
  by (simp add: brown_ratio_points_def)

lemma edge_intensity_points_range:
  "0 \<le> edge_intensity_points v \<and> edge_intensity_points v \<le> 1.5"
  by (simp add: edge_intensity_points_def)

lemma brightness_points_range: "0 \<le> brightness_points v \<and> brightness_points v \<le> 1"
  by (simp add: brightness_points_def)

lemma dirt_score_range: "0 \<le> dirt_score_of m \<and> dirt_score_of m \<le> 10"
  using color_diversity_points_range [of "color_diversity m"]
    contrast_points_range [of "contrast m"]
    saturation_points_range [of "saturation m"]
    brown_ratio_points_range [of "brown_ratio m"]
    edge_intensity_points_range [of "edge_intensity m"]
    brightness_points_range [of "brightness m"]
  by (simp add: dirt_score_sum)

lemma analyze_dirt_level_score: "fst (snd (snd (analyze_dirt_level m))) = dirt_score_of m"
  by (simp add: analyze_dirt_level_def Let_def split: prod.split)

lemma color_diversity_points_antimono:
  "v \<le> w \<Longrightarrow> color_diversity_points w \<le> color_diversity_points v"
  by (simp add: color_diversity_points_def)

lemma contrast_points_antimono: "v \<le> w \<Longrightarrow> contrast_points w \<le> contrast_points v"
  by (simp add: contrast_points_def)

lemma saturation_points_antimono: "v \<le> w \<Longrightarrow> saturation_points w \<le> saturation_points v"
  by (simp add: saturation_points_def)

lemma brown_ratio_points_mono: "v \<le> w \<Longrightarrow> brown_ratio_points v \<le> brown_ratio_points w"
  by (simp add: brown_ratio_points_def)

lemma edge_intensity_points_antimono:
  "v \<le> w \<Longrightarrow> edge_intensity_points w \<le> edge_intensity_points v"
  by (simp add: edge_intensity_points_def)

lemma brightness_points_antimono: "v \<le> w \<Longrightarrow> brightness_points w \<le> brightness_points v"
  by (simp add: brightness_points_def)

lemma dirt_level_label:
  "fst (dirt_level s) =
     (if 6 \<le> s then very_dirty else if 4 \<le> s then dirty else if 2 \<le> s then slightly_dirty
      else if 1 \<le> s then fairly_clean else very_clean)"
  by (simp add: dirt_level_def)

lemma labels_distinct:
  "distinct [very_dirty, dirty, slightly_dirty, fairly_clean, very_clean]"
  by (simp add: very_dirty_def dirty_def slightly_dirty_def fairly_clean_def very_clean_def)

text \<open>
  Claim C4. The dirt label is a total function of the dirt score, with closed lower
  bounds checked in descending order: the label is "very dirty" exactly for
  \<open>score \<ge> 6\<close>, "dirty" exactly for \<open>4 \<le> score < 6\<close>, "slightly dirty" exactly for
  \<open>2 \<le> score < 4\<close>, "fairly clean" exactly for \<open>1 \<le> score < 2\<close> and "very clean"
  exactly for \<open>score < 1\<close>; so the five buckets have no gap and no overlap, and the
  boundary values 1, 2, 4 and 6 belong to the higher bucket (4 is "dirty"). Both versions
  of \<^verbatim>\<open>analyze_dirt_level\<close> return this label for the score they compute.
\<close>

theorem dirt_label_buckets:
  "(fst (dirt_level s) = very_dirty \<longleftrightarrow> 6 \<le> s)
   \<and> (fst (dirt_level s) = dirty \<longleftrightarrow> 4 \<le> s \<and> s < 6)
   \<and> (fst (dirt_level s) = slightly_dirty \<longleftrightarrow> 2 \<le> s \<and> s < 4)
   \<and> (fst (dirt_level s) = fairly_clean \<longleftrightarrow> 1 \<le> s \<and> s < 2)
   \<and> (fst (dirt_level s) = very_clean \<longleftrightarrow> s < 1)
   \<and> fst (dirt_level 6) = very_dirty \<and> fst (dirt_level 4) = dirty
   \<and> fst (dirt_level 2) = slightly_dirty \<and> fst (dirt_level 1) = fairly_clean
   \<and> fst (analyze_dirt_level m) = fst (dirt_level (dirt_score_of m))
   \<and> fst (analyze_dirt_level_aci m) = fst (dirt_level (dirt_score_of m))"
proof -
  have a: "fst (analyze_dirt_level m) = fst (dirt_level (dirt_score_of m))"
    by (simp add: analyze_dirt_level_def Let_def split: prod.split)
  have b: "fst (analyze_dirt_level_aci m) = fst (dirt_level (dirt_score_of m))"
    by (simp add: analyze_dirt_level_aci_def dirt_level_def Let_def)
  show ?thesis
    using labels_distinct a b by (auto simp: dirt_level_label)
qed

theorem dirt_label_buckets_witness:
  "fst (dirt_level 4) = dirty \<and> fst (dirt_level 4) \<noteq> slightly_dirty
   \<and> fst (dirt_level 3.5) = slightly_dirty
   \<and> fst (analyze_dirt_level sample_metrics) = very_clean"
proof -
  have "dirt_score_of sample_metrics = 0"
    by (simp add: dirt_score_of_def sample_metrics_def)
  then show ?thesis
    using dirt_label_buckets [of 4 sample_metrics] dirt_label_buckets [of "3.5" sample_metrics]
      dirt_label_buckets [of 0 sample_metrics]
    by simp
qed

text \<open>
  Claim C5. For every six measurements the dirt score is the sum of six contributions,
  each a function of one metric alone: colour diversity below 80 adds 2, else below 120
  adds 1; contrast below 25 adds 2, else below 40 adds 1; saturation below 60 adds 1.5,
  else below 100 adds 0.5; brown ratio above 0.15 adds 2, else above 0.08 adds 1; edge
  intensity below 15 adds 1.5, else below 25 adds 0.5; brightness below 90 adds 1, else
  below 110 adds 0.5. The score lies between 0 and 10, and it is the score that
  \<^verbatim>\<open>analyze_dirt_level\<close> returns.
\<close>

theorem dirt_score_six_contributions:
  "dirt_score_of m =
     (if color_diversity m < 80 then 2 else if color_diversity m < 120 then 1 else 0)
     + (if contrast m < 25 then 2 else if contrast m < 40 then 1 else 0)
     + (if saturation m < 60 then 1.5 else if saturation m < 100 then 0.5 else 0)
     + (if brown_ratio m > 0.15 then 2 else if brown_ratio m > 0.08 then 1 else 0)
     + (if edge_intensity m < 15 then 1.5 else if edge_intensity m < 25 then 0.5 else 0)
     + (if brightness m < 90 then 1 else if brightness m < 110 then 0.5 else 0)
   \<and> 0 \<le> dirt_score_of m \<and> dirt_score_of m \<le> 10
   \<and> fst (snd (snd (analyze_dirt_level m))) = dirt_score_of m"
  unfolding analyze_dirt_level_score
  using dirt_score_range [of m]
  by (simp only: dirt_score_sum color_diversity_points_def contrast_points_def
      saturation_points_def brown_ratio_points_def edge_intensity_points_def
      brightness_points_def simp_thms)

theorem dirt_score_six_contributions_witness:
  "dirt_score_of \<lparr>color_diversity = 79, contrast = 24, saturation = 59, brown_ratio = 0.2,
      edge_intensity = 14, brightness = 89\<rparr> = 10
   \<and> dirt_score_of \<lparr>color_diversity = 100, contrast = 30, saturation = 80, brown_ratio = 0.1,
      edge_intensity = 20, brightness = 100\<rparr> = 4.5
   \<and> dirt_score_of sample_metrics = 0"
  using dirt_score_six_contributions [of "\<lparr>color_diversity = 79, contrast = 24,
      saturation = 59, brown_ratio = 0.2, edge_intensity = 14, brightness = 89\<rparr>"]
    dirt_score_six_contributions [of "\<lparr>color_diversity = 100, contrast = 30,
      saturation = 80, brown_ratio = 0.1, edge_intensity = 20, brightness = 100\<rparr>"]
    dirt_score_six_contributions [of sample_metrics]
  by (simp add: sample_metrics_def)

text \<open>
  Claim C9. The dirt score never decreases when one metric moves away from its clean
  end and the other five stay as they are: lowering the colour diversity, the contrast,
  the saturation, the edge intensity or the brightness, or raising the brown ratio, gives
  a score at least as large. For contrast: \<open>c2 \<le> c1\<close> implies that the score at
  contrast \<open>c2\<close> is at least the score at contrast \<open>c1\<close>.
\<close>

theorem dirt_score_monotone:
  "(c2 \<le> c1 \<longrightarrow> dirt_score_of (m\<lparr>color_diversity := c1\<rparr>) \<le> dirt_score_of (m\<lparr>color_diversity := c2\<rparr>))
   \<and> (c2 \<le> c1 \<longrightarrow> dirt_score_of (m\<lparr>contrast := c1\<rparr>) \<le> dirt_score_of (m\<lparr>contrast := c2\<rparr>))
   \<and> (c2 \<le> c1 \<longrightarrow> dirt_score_of (m\<lparr>saturation := c1\<rparr>) \<le> dirt_score_of (m\<lparr>saturation := c2\<rparr>))
   \<and> (b1 \<le> b2 \<longrightarrow> dirt_score_of (m\<lparr>brown_ratio := b1\<rparr>) \<le> dirt_score_of (m\<lparr>brown_ratio := b2\<rparr>))
   \<and> (c2 \<le> c1 \<longrightarrow> dirt_score_of (m\<lparr>edge_intensity := c1\<rparr>) \<le> dirt_score_of (m\<lparr>edge_intensity := c2\<rparr>))
   \<and> (c2 \<le> c1 \<longrightarrow> dirt_score_of (m\<lparr>brightness := c1\<rparr>) \<le> dirt_score_of (m\<lparr>brightness := c2\<rparr>))"
  by (simp add: dirt_score_sum color_diversity_points_antimono contrast_points_antimono
      saturation_points_antimono brown_ratio_points_mono edge_intensity_points_antimono
      brightness_points_antimono)

theorem dirt_score_monotone_witness:
  "(20::real) \<le> 50 \<and> (0.01::real) \<le> 0.2
   \<and> dirt_score_of (sample_metrics\<lparr>color_diversity := 50\<rparr>) \<le> dirt_score_of (sample_metrics\<lparr>color_diversity := 20\<rparr>)
   \<and> dirt_score_of (sample_metrics\<lparr>contrast := 50\<rparr>) \<le> dirt_score_of (sample_metrics\<lparr>contrast := 20\<rparr>)
   \<and> dirt_score_of (sample_metrics\<lparr>saturation := 50\<rparr>) \<le> dirt_score_of (sample_metrics\<lparr>saturation := 20\<rparr>)
   \<and> dirt_score_of (sample_metrics\<lparr>brown_ratio := 0.01\<rparr>) \<le> dirt_score_of (sample_metrics\<lparr>brown_ratio := 0.2\<rparr>)
   \<and> dirt_score_of (sample_metrics\<lparr>edge_intensity := 50\<rparr>) \<le> dirt_score_of (sample_metrics\<lparr>edge_intensity := 20\<rparr>)
   \<and> dirt_score_of (sample_metrics\<lparr>brightness := 50\<rparr>) \<le> dirt_score_of (sample_metrics\<lparr>brightness := 20\<rparr>)"
  using dirt_score_monotone [where ?c2.0 = 20 and ?c1.0 = 50 and ?b1.0 = "0.01"
      and ?b2.0 = "0.2" and m = sample_metrics]
  by simp

section \<open>Properties of the report\<close>

lemmas line_tests = verdict_line_def cleanliness_line_def line_no_def

lemma filter_damage_section:
  "filter verdict_line (damage_section cls c p0 p1 p2) = []"
  "filter cleanliness_line (damage_section cls c p0 p1 p2) = []"
  by (simp_all add: damage_section_def line_tests)

lemma filter_dirt_section:
  "filter verdict_line (dirt_section st sc) = []"
  "filter cleanliness_line (dirt_section st sc) = []"
  by (simp_all add: dirt_section_def line_tests)

lemma filter_technical_section:
  assumes "technical_section d = Inr t"
  shows "filter verdict_line t = []" and "filter cleanliness_line t = []"
  using assms by (auto simp: technical_section_def line_tests split: sum.splits)

lemma filter_conclusion_section:
  "filter verdict_line (conclusion_section st ec) = conclusion_section st ec"
  "filter cleanliness_line (conclusion_section st ec) = []"
  by (simp_all add: conclusion_section_def line_tests)

lemma filter_cleanliness_section:
  "filter verdict_line (cleanliness_section sc) = []"
  "filter cleanliness_line (cleanliness_section sc) = cleanliness_section sc"
  by (simp_all add: cleanliness_section_def line_tests)

lemma filter_rationale:
  "filter verdict_line (rationale (determine_repairability cls c p)) =
     rationale (determine_repairability cls c p)"
  "filter cleanliness_line (rationale (determine_repairability cls c p)) = []"
  by (simp_all add: determine_repairability_def rationale_def line_tests Let_def)

lemma report_filters:
  assumes "generate_expert_assessment cls c probs names st sc d = Inr a"
  shows "filter verdict_line a =
      rationale (determine_repairability cls c (probs ! 2 * 100))
      @ conclusion_section (fst (determine_repairability cls c (probs ! 2 * 100)))
          (snd (snd (determine_repairability cls c (probs ! 2 * 100))))"
    and "filter cleanliness_line a = cleanliness_section sc"
proof -
  obtain s msgs e where r: "determine_repairability cls c (probs ! 2 * 100) = (s, msgs, e)"
    by (cases "determine_repairability cls c (probs ! 2 * 100)") auto
  have m: "filter verdict_line msgs = msgs" "filter cleanliness_line msgs = []"
    using filter_rationale [of cls c "probs ! 2 * 100"] by (simp_all add: r rationale_def)
  obtain t where t: "technical_section d = Inr t"
    and a: "a = [Txt 243, Txt 244, Txt 245, Txt 248, Txt 249, Txt 252]
      @ damage_section cls c (probs ! 0 * 100) (probs ! 1 * 100) (probs ! 2 * 100)
      @ [Txt 317, Txt 318, Txt 245] @ msgs @ [Txt 317, Txt 326, Txt 245]
      @ dirt_section st sc @ [Txt 317, Txt 367, Txt 245] @ t @ [Txt 317, Txt 377, Txt 245]
      @ conclusion_section s e @ cleanliness_section sc
      @ [Txt 454, Txt 455, Txt 456, Txt 457, Txt 458, Txt 459] @ [Txt 461]"
    using assms
    by (auto simp: generate_expert_assessment_def getitem_def r Let_def
        split: sum.splits if_splits)
  show "filter verdict_line a =
      rationale (determine_repairability cls c (probs ! 2 * 100))
      @ conclusion_section (fst (determine_repairability cls c (probs ! 2 * 100)))
          (snd (snd (determine_repairability cls c (probs ! 2 * 100))))"
    unfolding a r filter_append
    by (simp add: filter_damage_section filter_dirt_section filter_technical_section [OF t]
        filter_conclusion_section filter_cleanliness_section m rationale_def line_tests)
  show "filter cleanliness_line a = cleanliness_section sc"
    unfolding a filter_append
    by (simp add: filter_damage_section filter_dirt_section filter_technical_section [OF t]
        filter_conclusion_section filter_cleanliness_section m line_tests)
qed

lemma report_succeeds:
  assumes "3 \<le> length probs"
    and "{''color_diversity'', ''contrast'', ''saturation'', ''edge_intensity'', ''brightness''} \<subseteq> dom d"
  shows "\<exists>a. generate_expert_assessment cls c probs names st sc d = Inr a"
  using assms
  by (auto simp: generate_expert_assessment_def getitem_def technical_section_def lookup_def
      Let_def split: prod.splits)

text \<open>
  Claim C6. For a fixed prediction and any two dirt assessments (label, score and
  metrics), the lines of the report that come from the verdict are the same: they are
  the rationale of \<^verbatim>\<open>determine_repairability\<close>, which is called without any dirt
  argument, followed by the conclusion block selected by its status and economic tag.
  The dirt score only adds the advice on cleanliness: the critical block (lines 440--445)
  exactly when the score is above 6.0, otherwise the below-standard block (lines
  447--451) exactly when the score is above 4.0, and no line otherwise.
\<close>

theorem verdict_independent_of_dirt:
  assumes "generate_expert_assessment predicted_class confidence probabilities class_names
             dirt_status1 dirt_score1 dirt_metrics1 = Inr report1"
    and "generate_expert_assessment predicted_class confidence probabilities class_names
             dirt_status2 dirt_score2 dirt_metrics2 = Inr report2"
  shows "filter verdict_line report1 = filter verdict_line report2
    \<and> filter verdict_line report1 =
        rationale (determine_repairability predicted_class confidence (probabilities ! 2 * 100))
        @ conclusion_section
            (fst (verdict (determine_repairability predicted_class confidence (probabilities ! 2 * 100))))
            (snd (verdict (determine_repairability predicted_class confidence (probabilities ! 2 * 100))))
    \<and> filter cleanliness_line report1 =
        (if dirt_score1 > 6.0 then [Txt 440, Txt 441, Txt 442, Txt 443, Txt 444, Txt 445]
         else if dirt_score1 > 4.0 then [Txt 447, Txt 448, Txt 449, Txt 450, Txt 451]
         else [])"
  using report_filters [OF assms(1)] report_filters(1) [OF assms(2)]
  by (simp add: cleanliness_section_def verdict_def)

theorem verdict_independent_of_dirt_witness:
  "\<not> isl (generate_expert_assessment ''major_damage'' 0.85 [0.1, 0.1, 0.8] [] very_dirty 7
           (metrics_dict sample_metrics 7))
   \<and> \<not> isl (generate_expert_assessment ''major_damage'' 0.85 [0.1, 0.1, 0.8] [] very_clean 0
           (metrics_dict sample_metrics 0))
   \<and> filter verdict_line (projr (generate_expert_assessment ''major_damage'' 0.85 [0.1, 0.1, 0.8] []
           very_dirty 7 (metrics_dict sample_metrics 7)))
     = filter verdict_line (projr (generate_expert_assessment ''major_damage'' 0.85 [0.1, 0.1, 0.8] []
           very_clean 0 (metrics_dict sample_metrics 0)))
   \<and> filter cleanliness_line (projr (generate_expert_assessment ''major_damage'' 0.85 [0.1, 0.1, 0.8] []
           very_dirty 7 (metrics_dict sample_metrics 7)))
     = [Txt 440, Txt 441, Txt 442, Txt 443, Txt 444, Txt 445]
   \<and> filter cleanliness_line (projr (generate_expert_assessment ''major_damage'' 0.85 [0.1, 0.1, 0.8] []
           very_clean 0 (metrics_dict sample_metrics 0)))
     = []"
proof -
  have "\<exists>a. generate_expert_assessment ''major_damage'' 0.85 [0.1, 0.1, 0.8] []
      very_dirty 7 (metrics_dict sample_metrics 7) = Inr a"
    by (rule report_succeeds) (simp_all add: metrics_dict_def)
  then obtain a1 where h1: "generate_expert_assessment ''major_damage'' 0.85 [0.1, 0.1, 0.8] []
      very_dirty 7 (metrics_dict sample_metrics 7) = Inr a1"
    by blast
  have "\<exists>a. generate_expert_assessment ''major_damage'' 0.85 [0.1, 0.1, 0.8] []
      very_clean 0 (metrics_dict sample_metrics 0) = Inr a"
    by (rule report_succeeds) (simp_all add: metrics_dict_def)
  then obtain a2 where h2: "generate_expert_assessment ''major_damage'' 0.85 [0.1, 0.1, 0.8] []
      very_clean 0 (metrics_dict sample_metrics 0) = Inr a2"
    by blast
  show ?thesis
    unfolding h1 h2
    using verdict_independent_of_dirt [OF h1 h2] verdict_independent_of_dirt [OF h2 h1]
    by simp
qed

lemma py_in_sublist: "py_in a b = sublist a b"
  by (induction b) (simp_all add: sublist_Cons_right)

lemma dirt_section_unambiguous:
  "l1 \<in> set dirt_labels \<Longrightarrow> l2 \<in> set dirt_labels \<Longrightarrow>
   dirt_section l1 sc = dirt_section l2 sc \<Longrightarrow> l1 = l2"
  using labels_distinct
  by (auto simp: dirt_labels_def dirt_section_def)

text \<open>
  Claim C8. Each of the five dirt labels should select its own narrative template, and
  no two labels the same one. \<^verbatim>\<open>generate_expert_assessment\<close> compares with \<^verbatim>\<open>==\<close> and does
  so (lemma \<open>dirt_section_unambiguous\<close>). \<^verbatim>\<open>get_human_comment\<close> tests with \<^verbatim>\<open>in\<close>, and the
  label "slegka gryaznaya" contains the label "gryaznaya": a slightly dirty car, as
  \<^verbatim>\<open>analyze_dirt_level\<close> labels a score of 2, gets the comments written for a dirty one
  (lines 186--187), and the branch of line 188 is never taken for any of the five labels.
\<close>

theorem dirt_comments_ambiguous:
  "fst (analyze_dirt_level_aci (sample_metrics\<lparr>contrast := 20\<rparr>)) = slightly_dirty
   \<and> dirt_comments slightly_dirty = [Cmt 186, Cmt 187]
   \<and> dirt_comments dirty = [Cmt 186, Cmt 187]
   \<and> slightly_dirty \<noteq> dirty
   \<and> get_human_comment ''no_damage'' 0.9 slightly_dirty = [Cmt 151, Cmt 152, Cmt 186, Cmt 187]"
  by (simp add: analyze_dirt_level_aci_def dirt_score_of_def sample_metrics_def
      dirt_comments_def get_human_comment_def damage_comments_def
      very_dirty_def dirty_def slightly_dirty_def Let_def)

lemma dirt_comments_labels:
  "map dirt_comments dirt_labels =
     [[Cmt 183, Cmt 184], [Cmt 186, Cmt 187], [Cmt 186, Cmt 187], [Cmt 191], [Cmt 193]]"
  by (simp add: dirt_labels_def dirt_comments_def very_dirty_def dirty_def slightly_dirty_def
      fairly_clean_def very_clean_def)

end
